theory Spec2Isabelle
  imports Main "HOL-Library.Word"
begin

section \<open>Schema of \<open>20260105054332_create_base_schema.sql\<close>\<close>

text \<open>
  The three tables of the migration. A column declared \<open>NOT NULL\<close> (or typed without
  \<open>| null\<close> in the \<open>Database\<close> type of \<open>src/lib/supabase.ts\<close>) has its plain type, a
  nullable column is an \<open>option\<close> with \<open>None\<close> for SQL \<open>NULL\<close>. Columns carry the alias
  the policies use for their table (\<open>p.id\<close>, \<open>i.assigned_to\<close>) as a prefix; the columns
  of \<open>follow_ups\<close> get \<open>f\<close>. A table is the list of its rows. The table \<open>auth.users\<close>
  belongs to the identity provider; the references of \<open>profiles\<close> to it are not checked.
\<close>

type_synonym uuid = "128 word"
type_synonym timestamptz = int

record profile =
  p_id :: uuid
  p_email :: string
  p_full_name :: string
  p_role :: string
  p_created_by :: "uuid option"
  p_is_active :: bool
  p_created_at :: timestamptz
  p_updated_at :: timestamptz

record inquiry =
  i_id :: uuid
  i_student_name :: string
  i_contact_number :: string
  i_email :: "string option"
  i_course_interested :: string
  i_more_input :: "string option"
  i_status :: string
  i_assigned_to :: "uuid option"
  i_created_by :: "uuid option"
  i_created_at :: timestamptz
  i_updated_at :: timestamptz

record follow_up =
  f_id :: uuid
  f_inquiry_id :: uuid
  f_notes :: string
  f_follow_up_date :: timestamptz
  f_voice_recording_url :: "string option"
  f_created_by :: "uuid option"
  f_created_at :: timestamptz

record db =
  profiles :: "profile list"
  inquiries :: "inquiry list"
  follow_ups :: "follow_up list"

text \<open>The \<open>CHECK\<close> constraints on \<open>profiles.role\<close> and \<open>inquiries.status\<close>.\<close>

definition role_check :: "string \<Rightarrow> bool" where
  "role_check r = (r \<in> set [''admin'', ''co_leader'', ''employee''])"

definition status_check :: "string \<Rightarrow> bool" where
  "status_check s = (s \<in> set [''pending'', ''converted'', ''dropped''])"


section \<open>Policy expressions\<close>

text \<open>
  A policy expression is evaluated for a database state, the value of \<open>auth.uid()\<close>
  (\<open>None\<close> when the request carries no authenticated user) and a row of the policy's
  table. SQL equality on nullable values is true only when both sides are present and
  equal; a \<open>NULL\<close> result does not admit a row, and no policy negates a comparison, so
  the unknown result is folded into \<open>False\<close>.
\<close>

type_synonym 'r expr = "db \<Rightarrow> uuid option \<Rightarrow> 'r \<Rightarrow> bool"

definition sql_eq :: "'a option \<Rightarrow> 'a option \<Rightarrow> bool" where
  "sql_eq a b = (case a of None \<Rightarrow> False | Some x \<Rightarrow> (case b of None \<Rightarrow> False | Some y \<Rightarrow> x = y))"

text \<open>
  \<open>EXISTS (SELECT 1 FROM profiles p WHERE p.id = auth.uid() AND p.role IN (...))\<close>.
  \<open>caller_role_in\<close> is the condition this sub-select states, over the rows of
  \<open>profiles\<close>. The sub-select is itself a query on a table under row security: before a
  statement runs, PostgreSQL expands the \<open>SELECT\<close> policies of \<open>profiles\<close> into it
  (section \<open>Row security on sub-selects\<close>), and a statement whose expansion fails
  raises before any condition is evaluated. The same holds for the sub-select of
  \<open>accessible_inquiry\<close> below, which reads \<open>inquiries\<close> and \<open>profiles\<close>.
\<close>

definition caller_role_in :: "string list \<Rightarrow> db \<Rightarrow> uuid option \<Rightarrow> bool" where
  "caller_role_in rs d u =
     list_ex (\<lambda>p. sql_eq (Some (p_id p)) u \<and> p_role p \<in> set rs) (profiles d)"

text \<open>
  \<open>EXISTS (SELECT 1 FROM inquiries i INNER JOIN profiles p ON p.id = auth.uid()
  WHERE i.id = follow_ups.inquiry_id
  AND (p.role IN ('admin', 'co_leader') OR i.assigned_to = auth.uid()))\<close>
\<close>

definition accessible_inquiry :: "follow_up expr" where
  "accessible_inquiry d u r =
     list_ex (\<lambda>i. list_ex (\<lambda>p. sql_eq (Some (p_id p)) u \<and> i_id i = f_inquiry_id r \<and>
                     (p_role p \<in> set [''admin'', ''co_leader''] \<or> sql_eq (i_assigned_to i) u))
                (profiles d))
       (inquiries d)"


section \<open>The policies\<close>

text \<open>
  \<open>CREATE POLICY name ON table FOR command TO authenticated USING (e) WITH CHECK (e')\<close>:
  a \<open>SELECT\<close> or \<open>DELETE\<close> policy has a \<open>USING\<close> expression, an \<open>INSERT\<close> policy a
  \<open>WITH CHECK\<close> expression, an \<open>UPDATE\<close> policy both (in that order below).
\<close>

datatype 'r policy =
    For_select string "'r expr"
  | For_insert string "'r expr"
  | For_update string "'r expr" "'r expr"
  | For_delete string "'r expr"

definition profiles_policies :: "profile policy list" where
  "profiles_policies =
    [ For_select ''Admins can view all profiles'' (\<lambda>d u r. caller_role_in [''admin''] d u),
      For_select ''Co-leaders can view all profiles'' (\<lambda>d u r. caller_role_in [''co_leader''] d u),
      For_select ''Employees can view own profile'' (\<lambda>d u r. sql_eq (Some (p_id r)) u),
      For_insert ''Only admins can insert profiles'' (\<lambda>d u r. caller_role_in [''admin''] d u),
      For_update ''Only admins can update profiles''
        (\<lambda>d u r. caller_role_in [''admin''] d u) (\<lambda>d u r. caller_role_in [''admin''] d u),
      For_delete ''Only admins can delete profiles'' (\<lambda>d u r. caller_role_in [''admin''] d u) ]"

definition inquiries_policies :: "inquiry policy list" where
  "inquiries_policies =
    [ For_select ''Admins and co-leaders can view all inquiries''
        (\<lambda>d u r. caller_role_in [''admin'', ''co_leader''] d u),
      For_select ''Employees can view assigned inquiries'' (\<lambda>d u r. sql_eq (i_assigned_to r) u),
      For_insert ''Admins and co-leaders can create inquiries''
        (\<lambda>d u r. caller_role_in [''admin'', ''co_leader''] d u),
      For_update ''Admins and co-leaders can update all inquiries''
        (\<lambda>d u r. caller_role_in [''admin'', ''co_leader''] d u)
        (\<lambda>d u r. caller_role_in [''admin'', ''co_leader''] d u),
      For_update ''Employees can update assigned inquiries''
        (\<lambda>d u r. sql_eq (i_assigned_to r) u) (\<lambda>d u r. sql_eq (i_assigned_to r) u),
      For_delete ''Only admins can delete inquiries'' (\<lambda>d u r. caller_role_in [''admin''] d u) ]"

definition follow_ups_policies :: "follow_up policy list" where
  "follow_ups_policies =
    [ For_select ''Users can view follow-ups for accessible inquiries'' accessible_inquiry,
      For_insert ''Users can create follow-ups for accessible inquiries'' accessible_inquiry,
      For_update ''Users can update own follow-ups''
        (\<lambda>d u r. sql_eq (f_created_by r) u) (\<lambda>d u r. sql_eq (f_created_by r) u) ]"


section \<open>Evaluation of a table's policies\<close>

text \<open>
  Row level security is enabled on all three tables and every policy is permissive and
  granted \<open>TO authenticated\<close>: a request without an authenticated user matches no policy,
  and for an authenticated one the expressions of the policies of the command are
  combined with \<open>OR\<close>, the \<open>USING\<close> expressions on the existing row and the
  \<open>WITH CHECK\<close> expressions on the proposed row. A command with no policy admits no row.
  These are the conditions the policies state; whether a statement gets to evaluate
  them is decided by the expansion of the next section.
\<close>

fun select_using :: "'r policy \<Rightarrow> 'r expr" where
  "select_using (For_select n e) d u r = e d u r"
| "select_using (For_insert n c) d u r = False"
| "select_using (For_update n e c) d u r = False"
| "select_using (For_delete n e) d u r = False"

fun insert_check :: "'r policy \<Rightarrow> 'r expr" where
  "insert_check (For_select n e) d u r = False"
| "insert_check (For_insert n c) d u r = c d u r"
| "insert_check (For_update n e c) d u r = False"
| "insert_check (For_delete n e) d u r = False"

fun update_using :: "'r policy \<Rightarrow> 'r expr" where
  "update_using (For_select n e) d u r = False"
| "update_using (For_insert n c) d u r = False"
| "update_using (For_update n e c) d u r = e d u r"
| "update_using (For_delete n e) d u r = False"

fun update_check :: "'r policy \<Rightarrow> 'r expr" where
  "update_check (For_select n e) d u r = False"
| "update_check (For_insert n c) d u r = False"
| "update_check (For_update n e c) d u r = c d u r"
| "update_check (For_delete n e) d u r = False"

fun delete_using :: "'r policy \<Rightarrow> 'r expr" where
  "delete_using (For_select n e) d u r = False"
| "delete_using (For_insert n c) d u r = False"
| "delete_using (For_update n e c) d u r = False"
| "delete_using (For_delete n e) d u r = e d u r"

definition authenticated :: "uuid option \<Rightarrow> bool" where
  "authenticated u = (u \<noteq> None)"

definition can_select :: "'r policy list \<Rightarrow> 'r expr" where
  "can_select ps d u r = (authenticated u \<and> list_ex (\<lambda>p. select_using p d u r) ps)"

definition can_insert :: "'r policy list \<Rightarrow> 'r expr" where
  "can_insert ps d u r = (authenticated u \<and> list_ex (\<lambda>p. insert_check p d u r) ps)"

definition can_update_old :: "'r policy list \<Rightarrow> 'r expr" where
  "can_update_old ps d u r = (authenticated u \<and> list_ex (\<lambda>p. update_using p d u r) ps)"

definition can_update_new :: "'r policy list \<Rightarrow> 'r expr" where
  "can_update_new ps d u r = (authenticated u \<and> list_ex (\<lambda>p. update_check p d u r) ps)"

definition can_update :: "'r policy list \<Rightarrow> db \<Rightarrow> uuid option \<Rightarrow> 'r \<Rightarrow> 'r \<Rightarrow> bool" where
  "can_update ps d u old new = (can_update_old ps d u old \<and> can_update_new ps d u new)"

definition can_delete :: "'r policy list \<Rightarrow> 'r expr" where
  "can_delete ps d u r = (authenticated u \<and> list_ex (\<lambda>p. delete_using p d u r) ps)"


section \<open>Row security on sub-selects\<close>

text \<open>
  The tables that the sub-selects in the policy expressions of a command on a table
  read, one entry for each sub-select (\<open>USING\<close> and \<open>WITH CHECK\<close> alike):
  on \<open>profiles\<close> every policy but "Employees can view own profile" reads \<open>profiles\<close>;
  on \<open>inquiries\<close> every policy but the two "Employees can ..." ones reads \<open>profiles\<close>;
  on \<open>follow_ups\<close> the \<open>SELECT\<close> and the \<open>INSERT\<close> policy read \<open>inquiries\<close> joined with
  \<open>profiles\<close>, the \<open>UPDATE\<close> policy has no sub-select, and there is no \<open>DELETE\<close> policy.
\<close>

datatype table = Profiles | Inquiries | Follow_ups

datatype command = Select | Insert | Update | Delete

fun sub_selects :: "table \<Rightarrow> command \<Rightarrow> table list" where
  "sub_selects Profiles Select = [Profiles, Profiles]"
| "sub_selects Profiles Insert = [Profiles]"
| "sub_selects Profiles Update = [Profiles, Profiles]"
| "sub_selects Profiles Delete = [Profiles]"
| "sub_selects Inquiries Select = [Profiles]"
| "sub_selects Inquiries Insert = [Profiles]"
| "sub_selects Inquiries Update = [Profiles, Profiles]"
| "sub_selects Inquiries Delete = [Profiles]"
| "sub_selects Follow_ups Select = [Inquiries, Profiles]"
| "sub_selects Follow_ups Insert = [Inquiries, Profiles]"
| "sub_selects Follow_ups Update = []"
| "sub_selects Follow_ups Delete = []"

text \<open>
  The query rewriter applies row security to a table \<open>t\<close> whose policy expressions read
  the tables \<open>reads\<close>: it refuses when \<open>t\<close> is already among the tables whose policies it
  is expanding (\<open>active\<close>), "infinite recursion detected in policy for relation", and
  otherwise marks \<open>t\<close> active and applies the \<open>SELECT\<close> policies of every table that a
  sub-select reads. \<open>expands\<close> says that the expansion goes through. Each level adds a
  table to \<open>active\<close>, so the expansion ends.
\<close>

function expands :: "table list \<Rightarrow> table \<Rightarrow> table list \<Rightarrow> bool" where
  "expands active t reads =
     (if t \<in> set active then False
      else list_all (\<lambda>t'. expands (t # active) t' (sub_selects t' Select)) reads)"
  by pat_completeness auto
termination
proof (relation "measure (\<lambda>(active, t, reads).
          length (filter (\<lambda>x. x \<notin> set active) [Profiles, Inquiries, Follow_ups]))")
  show "wf (measure (\<lambda>(active, t, reads).
          length (filter (\<lambda>x. x \<notin> set active) [Profiles, Inquiries, Follow_ups])))"
    by simp
next
  fix active :: "table list" and t :: table and reads :: "table list" and t' :: table
  assume "t \<notin> set active"
  then show "((t # active, t', sub_selects t' Select), (active, t, reads))
      \<in> measure (\<lambda>(active, t, reads).
          length (filter (\<lambda>x. x \<notin> set active) [Profiles, Inquiries, Follow_ups]))"
    by (cases t) auto
qed

declare expands.simps [simp del]

text \<open>
  A request without an authenticated user matches no policy (all are granted \<open>TO
  authenticated\<close>), so no sub-select enters its statement. For an authenticated caller
  the statement carries the sub-selects of the policies of its commands: those of the
  command itself and, when the statement reads columns of its table (a \<open>WHERE\<close>
  clause), those of \<open>SELECT\<close> as well.
\<close>

definition policy_reads :: "uuid option \<Rightarrow> table \<Rightarrow> command list \<Rightarrow> table list" where
  "policy_reads u t cs = (if authenticated u then concat (map (sub_selects t) cs) else [])"

definition recursion_free :: "uuid option \<Rightarrow> table \<Rightarrow> command list \<Rightarrow> bool" where
  "recursion_free u t cs = expands [] t (policy_reads u t cs)"


section \<open>Statements on the tables\<close>

text \<open>
  What a statement does to the tables once its rows are chosen: the key, foreign key and
  \<open>CHECK\<close> constraints, the triggers and the referential actions. A violated constraint
  raises, and a statement that raises leaves the database as it was.
\<close>

datatype error = Infinite_recursion | Rls_violation | Constraint_violation

text \<open>A foreign key column holds \<open>NULL\<close> or a key of the referenced table.\<close>

fun references :: "uuid option \<Rightarrow> uuid list \<Rightarrow> bool" where
  "references None ks = True"
| "references (Some k) ks = (k \<in> set ks)"

text \<open>
  The trigger function \<open>update_updated_at_column\<close>, installed \<open>BEFORE UPDATE ... FOR EACH
  ROW\<close> on \<open>profiles\<close> and on \<open>inquiries\<close>; \<open>now\<close> is the value of \<open>now()\<close>.
\<close>

definition update_profiles_updated_at :: "timestamptz \<Rightarrow> profile \<Rightarrow> profile" where
  "update_profiles_updated_at now new = new\<lparr>p_updated_at := now\<rparr>"

definition update_inquiries_updated_at :: "timestamptz \<Rightarrow> inquiry \<Rightarrow> inquiry" where
  "update_inquiries_updated_at now new = new\<lparr>i_updated_at := now\<rparr>"

subsection \<open>Referential actions\<close>

text \<open>
  \<open>follow_ups.inquiry_id REFERENCES inquiries(id) ON DELETE CASCADE\<close>: the follow-ups of
  a deleted inquiry are deleted with it. The action is the database's own and is not
  subject to the policies of \<open>follow_ups\<close>.
\<close>

definition inquiries_on_delete :: "uuid \<Rightarrow> db \<Rightarrow> db" where
  "inquiries_on_delete k d = d\<lparr>follow_ups := filter (\<lambda>f. f_inquiry_id f \<noteq> k) (follow_ups d)\<rparr>"

text \<open>
  \<open>inquiries.assigned_to\<close>, \<open>inquiries.created_by\<close> and \<open>follow_ups.created_by\<close>
  \<open>REFERENCES profiles(id) ON DELETE SET NULL\<close>: each constraint updates its referencing
  rows, and an update of a row of \<open>inquiries\<close> fires the trigger of that table.
\<close>

definition set_null_assigned_to :: "uuid \<Rightarrow> timestamptz \<Rightarrow> inquiry \<Rightarrow> inquiry" where
  "set_null_assigned_to k now i =
     (if i_assigned_to i = Some k
      then update_inquiries_updated_at now (i\<lparr>i_assigned_to := None\<rparr>) else i)"

definition set_null_created_by :: "uuid \<Rightarrow> timestamptz \<Rightarrow> inquiry \<Rightarrow> inquiry" where
  "set_null_created_by k now i =
     (if i_created_by i = Some k
      then update_inquiries_updated_at now (i\<lparr>i_created_by := None\<rparr>) else i)"

definition set_null_follow_up :: "uuid \<Rightarrow> follow_up \<Rightarrow> follow_up" where
  "set_null_follow_up k f = (if f_created_by f = Some k then f\<lparr>f_created_by := None\<rparr> else f)"

definition profiles_on_delete :: "uuid \<Rightarrow> timestamptz \<Rightarrow> db \<Rightarrow> db" where
  "profiles_on_delete k now d =
     d\<lparr>inquiries := map (set_null_created_by k now \<circ> set_null_assigned_to k now) (inquiries d),
       follow_ups := map (set_null_follow_up k) (follow_ups d)\<rparr>"

subsection \<open>Insert\<close>

definition insert_profiles_row :: "db \<Rightarrow> profile \<Rightarrow> error + db" where
  "insert_profiles_row d r =
     (if p_id r \<in> set (map p_id (profiles d)) \<or> p_email r \<in> set (map p_email (profiles d))
         \<or> \<not> role_check (p_role r)
      then Inl Constraint_violation
      else Inr (d\<lparr>profiles := profiles d @ [r]\<rparr>))"

definition insert_inquiries_row :: "db \<Rightarrow> inquiry \<Rightarrow> error + db" where
  "insert_inquiries_row d r =
     (if i_id r \<in> set (map i_id (inquiries d)) \<or> \<not> status_check (i_status r)
         \<or> \<not> references (i_assigned_to r) (map p_id (profiles d))
         \<or> \<not> references (i_created_by r) (map p_id (profiles d))
      then Inl Constraint_violation
      else Inr (d\<lparr>inquiries := inquiries d @ [r]\<rparr>))"

definition insert_follow_ups_row :: "db \<Rightarrow> follow_up \<Rightarrow> error + db" where
  "insert_follow_ups_row d r =
     (if f_id r \<in> set (map f_id (follow_ups d))
         \<or> f_inquiry_id r \<notin> set (map i_id (inquiries d))
         \<or> \<not> references (f_created_by r) (map p_id (profiles d))
      then Inl Constraint_violation
      else Inr (d\<lparr>follow_ups := follow_ups d @ [r]\<rparr>))"

subsection \<open>Update\<close>

text \<open>
  The rows that satisfy \<open>target\<close> get the \<open>SET\<close> clause \<open>s\<close> and then the \<open>BEFORE UPDATE\<close>
  trigger of their table. A changed key must stay unique and must not have been
  referenced (\<open>ON UPDATE NO ACTION\<close>, the default); a changed reference must point to an
  existing row; the \<open>CHECK\<close> constraints hold of every new row.
\<close>

definition update_profiles_rows ::
  "db \<Rightarrow> timestamptz \<Rightarrow> (profile \<Rightarrow> bool) \<Rightarrow> (profile \<Rightarrow> profile) \<Rightarrow> error + db" where
  "update_profiles_rows d now target s =
     (let new = (\<lambda>r. update_profiles_updated_at now (s r));
          hit = filter target (profiles d);
          rows = map (\<lambda>r. if target r then new r else r) (profiles d)
      in if (list_ex (\<lambda>r. p_id (new r) \<noteq> p_id r) hit \<and> \<not> distinct (map p_id rows))
            \<or> (list_ex (\<lambda>r. p_email (new r) \<noteq> p_email r) hit \<and> \<not> distinct (map p_email rows))
            \<or> list_ex (\<lambda>r. \<not> role_check (p_role (new r))) hit
            \<or> list_ex (\<lambda>r. p_id (new r) \<noteq> p_id r \<and>
                            (Some (p_id r) \<in> set (map i_assigned_to (inquiries d))
                             \<or> Some (p_id r) \<in> set (map i_created_by (inquiries d))
                             \<or> Some (p_id r) \<in> set (map f_created_by (follow_ups d)))) hit
         then Inl Constraint_violation
         else Inr (d\<lparr>profiles := rows\<rparr>))"

definition update_inquiries_rows ::
  "db \<Rightarrow> timestamptz \<Rightarrow> (inquiry \<Rightarrow> bool) \<Rightarrow> (inquiry \<Rightarrow> inquiry) \<Rightarrow> error + db" where
  "update_inquiries_rows d now target s =
     (let new = (\<lambda>r. update_inquiries_updated_at now (s r));
          hit = filter target (inquiries d);
          rows = map (\<lambda>r. if target r then new r else r) (inquiries d)
      in if (list_ex (\<lambda>r. i_id (new r) \<noteq> i_id r) hit \<and> \<not> distinct (map i_id rows))
            \<or> list_ex (\<lambda>r. \<not> status_check (i_status (new r))) hit
            \<or> list_ex (\<lambda>r. i_assigned_to (new r) \<noteq> i_assigned_to r
                            \<and> \<not> references (i_assigned_to (new r)) (map p_id (profiles d))) hit
            \<or> list_ex (\<lambda>r. i_created_by (new r) \<noteq> i_created_by r
                            \<and> \<not> references (i_created_by (new r)) (map p_id (profiles d))) hit
            \<or> list_ex (\<lambda>r. i_id (new r) \<noteq> i_id r
                            \<and> i_id r \<in> set (map f_inquiry_id (follow_ups d))) hit
         then Inl Constraint_violation
         else Inr (d\<lparr>inquiries := rows\<rparr>))"

definition update_follow_ups_rows ::
  "db \<Rightarrow> (follow_up \<Rightarrow> bool) \<Rightarrow> (follow_up \<Rightarrow> follow_up) \<Rightarrow> error + db" where
  "update_follow_ups_rows d target s =
     (let hit = filter target (follow_ups d);
          rows = map (\<lambda>r. if target r then s r else r) (follow_ups d)
      in if (list_ex (\<lambda>r. f_id (s r) \<noteq> f_id r) hit \<and> \<not> distinct (map f_id rows))
            \<or> list_ex (\<lambda>r. f_inquiry_id (s r) \<noteq> f_inquiry_id r
                            \<and> f_inquiry_id (s r) \<notin> set (map i_id (inquiries d))) hit
            \<or> list_ex (\<lambda>r. f_created_by (s r) \<noteq> f_created_by r
                            \<and> \<not> references (f_created_by (s r)) (map p_id (profiles d))) hit
         then Inl Constraint_violation
         else Inr (d\<lparr>follow_ups := rows\<rparr>))"

subsection \<open>Delete\<close>

text \<open>The rows that satisfy \<open>target\<close> go, and the referential action runs for the key of
  each of them.\<close>

definition delete_profiles_rows :: "db \<Rightarrow> timestamptz \<Rightarrow> (profile \<Rightarrow> bool) \<Rightarrow> db" where
  "delete_profiles_rows d now target =
     fold (\<lambda>k. profiles_on_delete k now) (map p_id (filter target (profiles d)))
       (d\<lparr>profiles := filter (\<lambda>r. \<not> target r) (profiles d)\<rparr>)"

definition delete_inquiries_rows :: "db \<Rightarrow> (inquiry \<Rightarrow> bool) \<Rightarrow> db" where
  "delete_inquiries_rows d target =
     fold inquiries_on_delete (map i_id (filter target (inquiries d)))
       (d\<lparr>inquiries := filter (\<lambda>r. \<not> target r) (inquiries d)\<rparr>)"

definition delete_follow_ups_rows :: "db \<Rightarrow> (follow_up \<Rightarrow> bool) \<Rightarrow> db" where
  "delete_follow_ups_rows d target = d\<lparr>follow_ups := filter (\<lambda>r. \<not> target r) (follow_ups d)\<rparr>"


section \<open>Statements under row security\<close>

text \<open>
  The statements of a caller (anonymous, or authenticated with \<open>auth.uid()\<close>), as the
  client issues them: \<open>select\<close> of a table, \<open>insert\<close> of a row, \<open>update ... where id = k\<close>
  and \<open>delete ... where id = k\<close>. The rewriter expands the policies first and the
  statement raises when the expansion fails. Otherwise a row that fails the \<open>USING\<close>
  expressions is not visible to the command, which skips it without an error, and a
  proposed row that fails the \<open>WITH CHECK\<close> expressions raises "new row violates row-level
  security policy". An update or delete with a \<open>WHERE\<close> clause reads columns of its
  table, so the \<open>SELECT\<close> policies apply to it as well as its own.
\<close>

definition select_profiles :: "db \<Rightarrow> uuid option \<Rightarrow> error + profile list" where
  "select_profiles d u =
     (if recursion_free u Profiles [Select]
      then Inr (filter (can_select profiles_policies d u) (profiles d))
      else Inl Infinite_recursion)"

definition select_inquiries :: "db \<Rightarrow> uuid option \<Rightarrow> error + inquiry list" where
  "select_inquiries d u =
     (if recursion_free u Inquiries [Select]
      then Inr (filter (can_select inquiries_policies d u) (inquiries d))
      else Inl Infinite_recursion)"

definition select_follow_ups :: "db \<Rightarrow> uuid option \<Rightarrow> error + follow_up list" where
  "select_follow_ups d u =
     (if recursion_free u Follow_ups [Select]
      then Inr (filter (can_select follow_ups_policies d u) (follow_ups d))
      else Inl Infinite_recursion)"

definition insert_profiles :: "db \<Rightarrow> uuid option \<Rightarrow> profile \<Rightarrow> error + db" where
  "insert_profiles d u r =
     (if recursion_free u Profiles [Insert]
      then (if can_insert profiles_policies d u r then insert_profiles_row d r
            else Inl Rls_violation)
      else Inl Infinite_recursion)"

definition insert_inquiries :: "db \<Rightarrow> uuid option \<Rightarrow> inquiry \<Rightarrow> error + db" where
  "insert_inquiries d u r =
     (if recursion_free u Inquiries [Insert]
      then (if can_insert inquiries_policies d u r then insert_inquiries_row d r
            else Inl Rls_violation)
      else Inl Infinite_recursion)"

definition insert_follow_ups :: "db \<Rightarrow> uuid option \<Rightarrow> follow_up \<Rightarrow> error + db" where
  "insert_follow_ups d u r =
     (if recursion_free u Follow_ups [Insert]
      then (if can_insert follow_ups_policies d u r then insert_follow_ups_row d r
            else Inl Rls_violation)
      else Inl Infinite_recursion)"

definition update_profiles ::
  "db \<Rightarrow> uuid option \<Rightarrow> timestamptz \<Rightarrow> uuid \<Rightarrow> (profile \<Rightarrow> profile) \<Rightarrow> error + db" where
  "update_profiles d u now k s =
     (if recursion_free u Profiles [Update, Select]
      then (let new = (\<lambda>r. update_profiles_updated_at now (s r));
                target = (\<lambda>r. p_id r = k \<and> can_update_old profiles_policies d u r
                                \<and> can_select profiles_policies d u r)
            in if list_all (\<lambda>r. can_update_new profiles_policies d u (new r)
                                \<and> can_select profiles_policies d u (new r))
                    (filter target (profiles d))
               then update_profiles_rows d now target s
               else Inl Rls_violation)
      else Inl Infinite_recursion)"

definition update_inquiries ::
  "db \<Rightarrow> uuid option \<Rightarrow> timestamptz \<Rightarrow> uuid \<Rightarrow> (inquiry \<Rightarrow> inquiry) \<Rightarrow> error + db" where
  "update_inquiries d u now k s =
     (if recursion_free u Inquiries [Update, Select]
      then (let new = (\<lambda>r. update_inquiries_updated_at now (s r));
                target = (\<lambda>r. i_id r = k \<and> can_update_old inquiries_policies d u r
                                \<and> can_select inquiries_policies d u r)
            in if list_all (\<lambda>r. can_update_new inquiries_policies d u (new r)
                                \<and> can_select inquiries_policies d u (new r))
                    (filter target (inquiries d))
               then update_inquiries_rows d now target s
               else Inl Rls_violation)
      else Inl Infinite_recursion)"

definition update_follow_ups ::
  "db \<Rightarrow> uuid option \<Rightarrow> uuid \<Rightarrow> (follow_up \<Rightarrow> follow_up) \<Rightarrow> error + db" where
  "update_follow_ups d u k s =
     (if recursion_free u Follow_ups [Update, Select]
      then (let target = (\<lambda>r. f_id r = k \<and> can_update_old follow_ups_policies d u r
                                \<and> can_select follow_ups_policies d u r)
            in if list_all (\<lambda>r. can_update_new follow_ups_policies d u (s r)
                                \<and> can_select follow_ups_policies d u (s r))
                    (filter target (follow_ups d))
               then update_follow_ups_rows d target s
               else Inl Rls_violation)
      else Inl Infinite_recursion)"

definition delete_profiles :: "db \<Rightarrow> uuid option \<Rightarrow> timestamptz \<Rightarrow> uuid \<Rightarrow> error + db" where
  "delete_profiles d u now k =
     (if recursion_free u Profiles [Delete, Select]
      then Inr (delete_profiles_rows d now
                  (\<lambda>r. p_id r = k \<and> can_delete profiles_policies d u r
                        \<and> can_select profiles_policies d u r))
      else Inl Infinite_recursion)"

definition delete_inquiries :: "db \<Rightarrow> uuid option \<Rightarrow> uuid \<Rightarrow> error + db" where
  "delete_inquiries d u k =
     (if recursion_free u Inquiries [Delete, Select]
      then Inr (delete_inquiries_rows d
                  (\<lambda>r. i_id r = k \<and> can_delete inquiries_policies d u r
                        \<and> can_select inquiries_policies d u r))
      else Inl Infinite_recursion)"

definition delete_follow_ups :: "db \<Rightarrow> uuid option \<Rightarrow> uuid \<Rightarrow> error + db" where
  "delete_follow_ups d u k =
     (if recursion_free u Follow_ups [Delete, Select]
      then Inr (delete_follow_ups_rows d
                  (\<lambda>r. f_id r = k \<and> can_delete follow_ups_policies d u r
                        \<and> can_select follow_ups_policies d u r))
      else Inl Infinite_recursion)"

subsection \<open>Statements on \<open>follow_ups\<close> that read no column\<close>

text \<open>
  \<open>update follow_ups set c = v, ...\<close> with constant values and no \<open>WHERE\<close> clause, and
  \<open>delete from follow_ups\<close>: they read no column of the table, so only the policies of
  their own command apply.
\<close>

datatype follow_up_assignment =
    Set_f_id uuid
  | Set_f_inquiry_id uuid
  | Set_f_notes string
  | Set_f_follow_up_date timestamptz
  | Set_f_voice_recording_url "string option"
  | Set_f_created_by "uuid option"
  | Set_f_created_at timestamptz

fun assign :: "follow_up_assignment \<Rightarrow> follow_up \<Rightarrow> follow_up" where
  "assign (Set_f_id v) r = r\<lparr>f_id := v\<rparr>"
| "assign (Set_f_inquiry_id v) r = r\<lparr>f_inquiry_id := v\<rparr>"
| "assign (Set_f_notes v) r = r\<lparr>f_notes := v\<rparr>"
| "assign (Set_f_follow_up_date v) r = r\<lparr>f_follow_up_date := v\<rparr>"
| "assign (Set_f_voice_recording_url v) r = r\<lparr>f_voice_recording_url := v\<rparr>"
| "assign (Set_f_created_by v) r = r\<lparr>f_created_by := v\<rparr>"
| "assign (Set_f_created_at v) r = r\<lparr>f_created_at := v\<rparr>"

definition set_clause :: "follow_up_assignment list \<Rightarrow> follow_up \<Rightarrow> follow_up" where
  "set_clause as r = fold assign as r"

definition update_follow_ups_all ::
  "db \<Rightarrow> uuid option \<Rightarrow> follow_up_assignment list \<Rightarrow> error + db" where
  "update_follow_ups_all d u as =
     (if recursion_free u Follow_ups [Update]
      then (if list_all (\<lambda>r. can_update_new follow_ups_policies d u (set_clause as r))
                 (filter (can_update_old follow_ups_policies d u) (follow_ups d))
            then update_follow_ups_rows d (can_update_old follow_ups_policies d u) (set_clause as)
            else Inl Rls_violation)
      else Inl Infinite_recursion)"

definition delete_follow_ups_all :: "db \<Rightarrow> uuid option \<Rightarrow> error + db" where
  "delete_follow_ups_all d u =
     (if recursion_free u Follow_ups [Delete]
      then Inr (delete_follow_ups_rows d (can_delete follow_ups_policies d u))
      else Inl Infinite_recursion)"


section \<open>Requests and histories\<close>

datatype request =
    Insert_profile profile
  | Update_profile uuid "profile \<Rightarrow> profile"
  | Delete_profile uuid
  | Insert_inquiry inquiry
  | Update_inquiry uuid "inquiry \<Rightarrow> inquiry"
  | Delete_inquiry uuid
  | Insert_follow_up follow_up
  | Update_follow_up uuid "follow_up \<Rightarrow> follow_up"
  | Delete_follow_up uuid
  | Update_follow_ups_all "follow_up_assignment list"
  | Delete_follow_ups_all

text \<open>A request of a caller, under row security.\<close>

fun exec :: "db \<Rightarrow> uuid option \<Rightarrow> timestamptz \<Rightarrow> request \<Rightarrow> error + db" where
  "exec d u now (Insert_profile r) = insert_profiles d u r"
| "exec d u now (Update_profile k s) = update_profiles d u now k s"
| "exec d u now (Delete_profile k) = delete_profiles d u now k"
| "exec d u now (Insert_inquiry r) = insert_inquiries d u r"
| "exec d u now (Update_inquiry k s) = update_inquiries d u now k s"
| "exec d u now (Delete_inquiry k) = delete_inquiries d u k"
| "exec d u now (Insert_follow_up r) = insert_follow_ups d u r"
| "exec d u now (Update_follow_up k s) = update_follow_ups d u k s"
| "exec d u now (Delete_follow_up k) = delete_follow_ups d u k"
| "exec d u now (Update_follow_ups_all as) = update_follow_ups_all d u as"
| "exec d u now Delete_follow_ups_all = delete_follow_ups_all d u"

text \<open>
  The same request where row security does not apply: from the service role or the
  owner of the tables. A row of \<open>profiles\<close> also goes by the cascade from \<open>auth.users\<close>
  when \<open>handleRemoveEmployee\<close> deletes the user, with the same referential actions on
  \<open>inquiries\<close> and \<open>follow_ups\<close>.
\<close>

fun bypass_exec :: "db \<Rightarrow> timestamptz \<Rightarrow> request \<Rightarrow> error + db" where
  "bypass_exec d now (Insert_profile r) = insert_profiles_row d r"
| "bypass_exec d now (Update_profile k s) = update_profiles_rows d now (\<lambda>r. p_id r = k) s"
| "bypass_exec d now (Delete_profile k) = Inr (delete_profiles_rows d now (\<lambda>r. p_id r = k))"
| "bypass_exec d now (Insert_inquiry r) = insert_inquiries_row d r"
| "bypass_exec d now (Update_inquiry k s) = update_inquiries_rows d now (\<lambda>r. i_id r = k) s"
| "bypass_exec d now (Delete_inquiry k) = Inr (delete_inquiries_rows d (\<lambda>r. i_id r = k))"
| "bypass_exec d now (Insert_follow_up r) = insert_follow_ups_row d r"
| "bypass_exec d now (Update_follow_up k s) = update_follow_ups_rows d (\<lambda>r. f_id r = k) s"
| "bypass_exec d now (Delete_follow_up k) = Inr (delete_follow_ups_rows d (\<lambda>r. f_id r = k))"
| "bypass_exec d now (Update_follow_ups_all as) = update_follow_ups_rows d (\<lambda>r. True) (set_clause as)"
| "bypass_exec d now Delete_follow_ups_all = Inr (delete_follow_ups_rows d (\<lambda>r. True))"

text \<open>The database after a statement: as it was when the statement raised.\<close>

fun outcome :: "db \<Rightarrow> error + db \<Rightarrow> db" where
  "outcome d (Inl e) = d"
| "outcome d (Inr d') = d'"

datatype event =
    As_caller "uuid option" timestamptz request
  | Bypassing_rls timestamptz request

fun step :: "db \<Rightarrow> event \<Rightarrow> db" where
  "step d (As_caller u now q) = outcome d (exec d u now q)"
| "step d (Bypassing_rls now q) = outcome d (bypass_exec d now q)"

fun run :: "db \<Rightarrow> event list \<Rightarrow> db" where
  "run d [] = d"
| "run d (e # es) = run (step d e) es"

subsection \<open>Integrity of a database state\<close>

text \<open>Every follow-up has its inquiry.\<close>

definition no_orphans :: "db \<Rightarrow> bool" where
  "no_orphans d = list_all (\<lambda>f. f_inquiry_id f \<in> set (map i_id (inquiries d))) (follow_ups d)"

definition empty_db :: db where
  "empty_db = \<lparr>profiles = [], inquiries = [], follow_ups = []\<rparr>"


section \<open>A database state of the academy\<close>

text \<open>
  The situation of the scenario: A is an admin, B and D are employees, C is a
  co-leader; inquiry I1 is assigned to B, I2 to D (created by B), I3 to nobody; B and A
  logged follow-ups on I1, D on I2. D's account is deactivated.
\<close>

definition profile_A :: profile where
  "profile_A = \<lparr>p_id = 1, p_email = ''a@academy.test'', p_full_name = ''A'', p_role = ''admin'',
     p_created_by = None, p_is_active = True, p_created_at = 1, p_updated_at = 1\<rparr>"

definition profile_B :: profile where
  "profile_B = \<lparr>p_id = 2, p_email = ''b@academy.test'', p_full_name = ''B'', p_role = ''employee'',
     p_created_by = Some 1, p_is_active = True, p_created_at = 2, p_updated_at = 2\<rparr>"

definition profile_C :: profile where
  "profile_C = \<lparr>p_id = 3, p_email = ''c@academy.test'', p_full_name = ''C'', p_role = ''co_leader'',
     p_created_by = Some 1, p_is_active = True, p_created_at = 3, p_updated_at = 3\<rparr>"

definition profile_D :: profile where
  "profile_D = \<lparr>p_id = 4, p_email = ''d@academy.test'', p_full_name = ''D'', p_role = ''employee'',
     p_created_by = Some 1, p_is_active = False, p_created_at = 4, p_updated_at = 4\<rparr>"

definition inquiry_I1 :: inquiry where
  "inquiry_I1 = \<lparr>i_id = 10, i_student_name = ''S1'', i_contact_number = ''100'', i_email = None,
     i_course_interested = ''maths'', i_more_input = None, i_status = ''pending'',
     i_assigned_to = Some 2, i_created_by = Some 1, i_created_at = 10, i_updated_at = 10\<rparr>"

definition inquiry_I2 :: inquiry where
  "inquiry_I2 = \<lparr>i_id = 11, i_student_name = ''S2'', i_contact_number = ''200'', i_email = None,
     i_course_interested = ''physics'', i_more_input = None, i_status = ''pending'',
     i_assigned_to = Some 4, i_created_by = Some 2, i_created_at = 11, i_updated_at = 11\<rparr>"

definition inquiry_I3 :: inquiry where
  "inquiry_I3 = \<lparr>i_id = 12, i_student_name = ''S3'', i_contact_number = ''300'', i_email = None,
     i_course_interested = ''maths'', i_more_input = None, i_status = ''converted'',
     i_assigned_to = None, i_created_by = Some 3, i_created_at = 12, i_updated_at = 12\<rparr>"

definition follow_up_F1 :: follow_up where
  "follow_up_F1 = \<lparr>f_id = 20, f_inquiry_id = 10, f_notes = ''called'', f_follow_up_date = 20,
     f_voice_recording_url = None, f_created_by = Some 2, f_created_at = 20\<rparr>"

definition follow_up_F2 :: follow_up where
  "follow_up_F2 = \<lparr>f_id = 21, f_inquiry_id = 11, f_notes = ''no answer'', f_follow_up_date = 21,
     f_voice_recording_url = None, f_created_by = Some 4, f_created_at = 21\<rparr>"

definition follow_up_F3 :: follow_up where
  "follow_up_F3 = \<lparr>f_id = 22, f_inquiry_id = 10, f_notes = ''visit'', f_follow_up_date = 22,
     f_voice_recording_url = None, f_created_by = Some 1, f_created_at = 22\<rparr>"

definition academy_db :: db where
  "academy_db = \<lparr>profiles = [profile_A, profile_B, profile_C, profile_D],
     inquiries = [inquiry_I1, inquiry_I2, inquiry_I3],
     follow_ups = [follow_up_F1, follow_up_F2, follow_up_F3]\<rparr>"

lemmas academy_defs = academy_db_def profile_A_def profile_B_def profile_C_def profile_D_def
  inquiry_I1_def inquiry_I2_def inquiry_I3_def follow_up_F1_def follow_up_F2_def follow_up_F3_def

section \<open>Deactivating accounts\<close>

text \<open>The client's \<open>toggleActiveStatus\<close> writes \<open>profiles.is_active\<close>; \<open>set_is_active g\<close>
  gives every profile the flag \<open>g\<close> says and changes nothing else.\<close>

definition set_is_active :: "(profile \<Rightarrow> bool) \<Rightarrow> db \<Rightarrow> db" where
  "set_is_active g d = d\<lparr>profiles := map (\<lambda>p. p\<lparr>p_is_active := g p\<rparr>) (profiles d)\<rparr>"


section \<open>Auxiliary facts\<close>

lemma sql_eq_simps [simp]:
  "sql_eq (Some x) (Some y) = (x = y)" "sql_eq a None = False" "sql_eq None b = False"
  by (simp_all add: sql_eq_def split: option.splits)


lemma caller_role_in_None [simp]: "caller_role_in rs d None = False"
  by (simp add: caller_role_in_def list_ex_iff)

lemma can_select_profiles:
  "can_select profiles_policies d u r =
     (u \<noteq> None \<and> (caller_role_in [''admin''] d u \<or> caller_role_in [''co_leader''] d u
        \<or> sql_eq (Some (p_id r)) u))"
  by (simp add: can_select_def profiles_policies_def authenticated_def)

lemma can_delete_profiles:
  "can_delete profiles_policies d u r = (u \<noteq> None \<and> caller_role_in [''admin''] d u)"
  by (simp add: can_delete_def profiles_policies_def authenticated_def)

lemma can_select_inquiries:
  "can_select inquiries_policies d u r =
     (u \<noteq> None \<and> (caller_role_in [''admin'', ''co_leader''] d u \<or> sql_eq (i_assigned_to r) u))"
  by (simp add: can_select_def inquiries_policies_def authenticated_def)

lemma can_update_inquiries:
  "can_update inquiries_policies d u old new =
     (u \<noteq> None \<and> (caller_role_in [''admin'', ''co_leader''] d u \<or> sql_eq (i_assigned_to old) u)
       \<and> (caller_role_in [''admin'', ''co_leader''] d u \<or> sql_eq (i_assigned_to new) u))"
  by (auto simp add: can_update_def can_update_old_def can_update_new_def inquiries_policies_def authenticated_def)

lemma can_delete_inquiries:
  "can_delete inquiries_policies d u r = (u \<noteq> None \<and> caller_role_in [''admin''] d u)"
  by (simp add: can_delete_def inquiries_policies_def authenticated_def)

lemma can_select_follow_ups:
  "can_select follow_ups_policies d u r = (u \<noteq> None \<and> accessible_inquiry d u r)"
  by (simp add: can_select_def follow_ups_policies_def authenticated_def)

lemma can_insert_follow_ups:
  "can_insert follow_ups_policies d u r = (u \<noteq> None \<and> accessible_inquiry d u r)"
  by (simp add: can_insert_def follow_ups_policies_def authenticated_def)

lemma can_update_follow_ups:
  "can_update follow_ups_policies d u old new =
     (u \<noteq> None \<and> sql_eq (f_created_by old) u \<and> sql_eq (f_created_by new) u)"
  by (auto simp add: can_update_def can_update_old_def can_update_new_def follow_ups_policies_def authenticated_def)

lemma can_delete_follow_ups: "can_delete follow_ups_policies d u r = False"
  by (simp add: can_delete_def follow_ups_policies_def)



lemma set_null_inquiry_id [simp]:
  "i_id (set_null_assigned_to k now i) = i_id i" "i_id (set_null_created_by k now i) = i_id i"
  by (simp_all add: set_null_assigned_to_def set_null_created_by_def
        update_inquiries_updated_at_def)

lemma set_null_follow_up_inquiry_id [simp]:
  "f_inquiry_id (set_null_follow_up k f) = f_inquiry_id f"
  by (simp add: set_null_follow_up_def)

lemma set_null_inquiry:
  "set_null_created_by k now (set_null_assigned_to k now i)
     = i\<lparr>i_assigned_to := (if i_assigned_to i = Some k then None else i_assigned_to i),
         i_created_by := (if i_created_by i = Some k then None else i_created_by i),
         i_updated_at := (if i_assigned_to i = Some k \<or> i_created_by i = Some k then now
                          else i_updated_at i)\<rparr>"
  by (cases i) (simp add: set_null_created_by_def set_null_assigned_to_def
        update_inquiries_updated_at_def)

lemma set_null_follow_up:
  "set_null_follow_up k f
     = f\<lparr>f_created_by := (if f_created_by f = Some k then None else f_created_by f)\<rparr>"
  by (cases f) (simp add: set_null_follow_up_def)

lemma can_insert_profiles:
  "can_insert profiles_policies d u r = (u \<noteq> None \<and> caller_role_in [''admin''] d u)"
  by (simp add: can_insert_def profiles_policies_def authenticated_def)

lemma can_update_profiles:
  "can_update profiles_policies d u old new = (u \<noteq> None \<and> caller_role_in [''admin''] d u)"
  by (auto simp add: can_update_def can_update_old_def can_update_new_def profiles_policies_def
        authenticated_def)

lemma can_insert_inquiries:
  "can_insert inquiries_policies d u r
     = (u \<noteq> None \<and> caller_role_in [''admin'', ''co_leader''] d u)"
  by (simp add: can_insert_def inquiries_policies_def authenticated_def)

lemma caller_role_in_set_is_active [simp]:
  "caller_role_in rs (set_is_active g d) u = caller_role_in rs d u"
  by (simp add: caller_role_in_def set_is_active_def list_ex_iff)

lemma accessible_inquiry_set_is_active [simp]:
  "accessible_inquiry (set_is_active g d) u r = accessible_inquiry d u r"
  by (simp add: accessible_inquiry_def set_is_active_def list_ex_iff)

lemma authenticated_simps [simp]: "authenticated (Some c)" "\<not> authenticated None"
  by (simp_all add: authenticated_def)

lemma can_anonymous [simp]:
  "\<not> can_select ps d None r" "\<not> can_insert ps d None r" "\<not> can_update_old ps d None r"
  "\<not> can_update_new ps d None r" "\<not> can_delete ps d None r"
  by (simp_all add: can_select_def can_insert_def can_update_old_def can_update_new_def
        can_delete_def)

lemma recursion_free_anonymous [simp]: "recursion_free None t cs"
  by (simp add: recursion_free_def policy_reads_def expands.simps)

lemma recursion_profiles [simp]:
  "\<not> recursion_free (Some c) Profiles [Select]"
  "\<not> recursion_free (Some c) Profiles [Insert]"
  "\<not> recursion_free (Some c) Profiles [Update, Select]"
  "\<not> recursion_free (Some c) Profiles [Delete, Select]"
  by (simp_all add: recursion_free_def policy_reads_def expands.simps)

lemma recursion_inquiries [simp]:
  "\<not> recursion_free (Some c) Inquiries [Select]"
  "\<not> recursion_free (Some c) Inquiries [Insert]"
  "\<not> recursion_free (Some c) Inquiries [Update, Select]"
  "\<not> recursion_free (Some c) Inquiries [Delete, Select]"
  by (simp_all add: recursion_free_def policy_reads_def expands.simps)

lemma recursion_follow_ups [simp]:
  "\<not> recursion_free (Some c) Follow_ups [Select]"
  "\<not> recursion_free (Some c) Follow_ups [Insert]"
  "\<not> recursion_free (Some c) Follow_ups [Update, Select]"
  "\<not> recursion_free (Some c) Follow_ups [Delete, Select]"
  "recursion_free (Some c) Follow_ups [Update]"
  "recursion_free (Some c) Follow_ups [Delete]"
  by (simp_all add: recursion_free_def policy_reads_def expands.simps)

lemma no_orphans_iff:
  "no_orphans d = (set (map f_inquiry_id (follow_ups d)) \<subseteq> set (map i_id (inquiries d)))"
  by (auto simp: no_orphans_def list_all_iff)

lemma fold_inquiries_on_delete:
  "fold inquiries_on_delete ks d
     = d\<lparr>follow_ups := filter (\<lambda>f. f_inquiry_id f \<notin> set ks) (follow_ups d)\<rparr>"
proof (induction ks arbitrary: d)
  case Nil
  then show ?case by simp
next
  case (Cons k ks)
  have "fold inquiries_on_delete (k # ks) d = fold inquiries_on_delete ks (inquiries_on_delete k d)"
    by simp
  also have "\<dots> = (inquiries_on_delete k d)
      \<lparr>follow_ups := filter (\<lambda>f. f_inquiry_id f \<notin> set ks) (follow_ups (inquiries_on_delete k d))\<rparr>"
    by (rule Cons.IH)
  also have "\<dots> = d\<lparr>follow_ups := filter (\<lambda>f. f_inquiry_id f \<notin> set (k # ks)) (follow_ups d)\<rparr>"
    by (simp add: inquiries_on_delete_def)
  finally show ?case .
qed

lemma fold_profiles_on_delete_keys:
  "map i_id (inquiries (fold (\<lambda>k. profiles_on_delete k now) ks d)) = map i_id (inquiries d)"
  "map f_inquiry_id (follow_ups (fold (\<lambda>k. profiles_on_delete k now) ks d))
     = map f_inquiry_id (follow_ups d)"
  by (induction ks arbitrary: d) (simp_all add: profiles_on_delete_def)

lemma fold_profiles_on_delete_length:
  "length (follow_ups (fold (\<lambda>k. profiles_on_delete k now) ks d)) = length (follow_ups d)"
  by (induction ks arbitrary: d) (simp_all add: profiles_on_delete_def)

lemma delete_inquiries_rows_eq:
  "delete_inquiries_rows d target
     = d\<lparr>inquiries := filter (\<lambda>r. \<not> target r) (inquiries d),
         follow_ups := filter (\<lambda>f. f_inquiry_id f \<notin> i_id ` {r \<in> set (inquiries d). target r})
                         (follow_ups d)\<rparr>"
  by (simp add: delete_inquiries_rows_def fold_inquiries_on_delete)

lemma insert_rows_no_orphans:
  "no_orphans d \<Longrightarrow> no_orphans (outcome d (insert_profiles_row d p))"
  "no_orphans d \<Longrightarrow> no_orphans (outcome d (insert_inquiries_row d i))"
  "no_orphans d \<Longrightarrow> no_orphans (outcome d (insert_follow_ups_row d f))"
  by (auto simp: insert_profiles_row_def insert_inquiries_row_def insert_follow_ups_row_def
        no_orphans_def list_all_iff)

lemma update_profiles_rows_no_orphans:
  "no_orphans d \<Longrightarrow> no_orphans (outcome d (update_profiles_rows d now target s))"
  by (simp add: update_profiles_rows_def Let_def no_orphans_def)

lemma update_inquiries_rows_no_orphans:
  assumes "no_orphans d"
  shows "no_orphans (outcome d (update_inquiries_rows d now target s))"
proof (cases "update_inquiries_rows d now target s")
  case (Inl e)
  with assms show ?thesis by simp
next
  case (Inr d')
  define new where "new = (\<lambda>r. update_inquiries_updated_at now (s r))"
  from Inr have d': "d' = d\<lparr>inquiries := map (\<lambda>r. if target r then new r else r) (inquiries d)\<rparr>"
    and ok: "\<not> list_ex (\<lambda>r. i_id (new r) \<noteq> i_id r \<and> i_id r \<in> set (map f_inquiry_id (follow_ups d)))
                 (filter target (inquiries d))"
    by (auto simp: update_inquiries_rows_def Let_def new_def split: if_splits)
  have "f_inquiry_id f \<in> set (map i_id (inquiries d'))" if f: "f \<in> set (follow_ups d)" for f
  proof -
    from assms f obtain r where r: "r \<in> set (inquiries d)" "i_id r = f_inquiry_id f"
      by (auto simp: no_orphans_def list_all_iff)
    show ?thesis
    proof (cases "target r")
      case True
      with ok r f have "i_id (new r) = i_id r" by (force simp: list_ex_iff)
      with True r show ?thesis by (force simp: d')
    next
      case False
      with r show ?thesis by (force simp: d')
    qed
  qed
  then show ?thesis by (simp add: Inr no_orphans_def list_all_iff d')
qed

lemma update_follow_ups_rows_no_orphans:
  assumes "no_orphans d"
  shows "no_orphans (outcome d (update_follow_ups_rows d target s))"
proof (cases "update_follow_ups_rows d target s")
  case (Inl e)
  with assms show ?thesis by simp
next
  case (Inr d')
  then have d': "d' = d\<lparr>follow_ups := map (\<lambda>r. if target r then s r else r) (follow_ups d)\<rparr>"
    and ok: "\<not> list_ex (\<lambda>r. f_inquiry_id (s r) \<noteq> f_inquiry_id r
                            \<and> f_inquiry_id (s r) \<notin> set (map i_id (inquiries d)))
                 (filter target (follow_ups d))"
    by (auto simp: update_follow_ups_rows_def Let_def split: if_splits)
  have b: "f_inquiry_id r \<in> set (map i_id (inquiries d))" if "r \<in> set (follow_ups d)" for r
    using assms that by (auto simp: no_orphans_def list_all_iff)
  have a: "f_inquiry_id (s r) \<in> set (map i_id (inquiries d))"
    if r: "r \<in> set (follow_ups d)" "target r" for r
  proof (cases "f_inquiry_id (s r) = f_inquiry_id r")
    case True
    with b r show ?thesis by simp
  next
    case False
    with ok r show ?thesis by (force simp: list_ex_iff)
  qed
  from a b show ?thesis by (auto simp: Inr no_orphans_def list_all_iff d')
qed

lemma delete_profiles_rows_no_orphans:
  "no_orphans d \<Longrightarrow> no_orphans (delete_profiles_rows d now target)"
  by (simp add: no_orphans_iff delete_profiles_rows_def fold_profiles_on_delete_keys)

lemma delete_inquiries_rows_no_orphans:
  "no_orphans d \<Longrightarrow> no_orphans (delete_inquiries_rows d target)"
  by (auto simp: no_orphans_def list_all_iff delete_inquiries_rows_eq)

lemma delete_follow_ups_rows_no_orphans:
  "no_orphans d \<Longrightarrow> no_orphans (delete_follow_ups_rows d target)"
  by (auto simp: no_orphans_def list_all_iff delete_follow_ups_rows_def)

lemmas rows_no_orphans = insert_rows_no_orphans update_profiles_rows_no_orphans
  update_inquiries_rows_no_orphans update_follow_ups_rows_no_orphans
  delete_profiles_rows_no_orphans delete_inquiries_rows_no_orphans
  delete_follow_ups_rows_no_orphans

lemma bypass_exec_no_orphans:
  "no_orphans d \<Longrightarrow> no_orphans (outcome d (bypass_exec d now q))"
  by (cases q) (simp_all add: rows_no_orphans)

lemma exec_no_orphans:
  "no_orphans d \<Longrightarrow> no_orphans (outcome d (exec d u now q))"
  by (cases q)
     (simp_all add: insert_profiles_def insert_inquiries_def insert_follow_ups_def
        update_profiles_def update_inquiries_def update_follow_ups_def delete_profiles_def
        delete_inquiries_def delete_follow_ups_def update_follow_ups_all_def
        delete_follow_ups_all_def Let_def rows_no_orphans)

lemma run_no_orphans: "no_orphans d \<Longrightarrow> no_orphans (run d es)"
proof (induction es arbitrary: d)
  case Nil
  then show ?case by simp
next
  case (Cons e es)
  from Cons.prems have "no_orphans (step d e)"
    by (cases e) (simp_all add: exec_no_orphans bypass_exec_no_orphans)
  with Cons.IH show ?case by simp
qed

lemma filter_anonymous [simp]:
  "filter (can_select ps d None) xs = []" "filter (can_update_old ps d None) xs = []"
  by (simp_all add: filter_empty_conv)

lemma map_filter_key:
  "distinct (map f xs) \<Longrightarrow> k \<in> set (map f xs) \<Longrightarrow> map f (filter (\<lambda>r. f r = k) xs) = [k]"
proof (induction xs)
  case Nil
  then show ?case by simp
next
  case (Cons a xs)
  show ?case
  proof (cases "f a = k")
    case True
    with Cons.prems have "\<forall>y\<in>set xs. f y \<noteq> k" by (metis distinct.simps(2) imageI list.simps(9) set_map)
    then have "filter (\<lambda>r. f r = k) xs = []" by (simp add: filter_empty_conv)
    with True show ?thesis by simp
  next
    case False
    with Cons show ?thesis by auto
  qed
qed

lemma rows_follow_ups_length:
  "length (follow_ups (outcome d (update_profiles_rows d now tp sp))) = length (follow_ups d)"
  "length (follow_ups (outcome d (update_inquiries_rows d now ti si))) = length (follow_ups d)"
  "length (follow_ups (outcome d (update_follow_ups_rows d tf sf))) = length (follow_ups d)"
  "length (follow_ups (delete_profiles_rows d now tp)) = length (follow_ups d)"
  by (simp_all add: update_profiles_rows_def update_inquiries_rows_def
        update_follow_ups_rows_def delete_profiles_rows_def Let_def
        fold_profiles_on_delete_length)

lemma insert_rows_follow_ups_length:
  "length (follow_ups d) \<le> length (follow_ups (outcome d (insert_profiles_row d p)))"
  "length (follow_ups d) \<le> length (follow_ups (outcome d (insert_inquiries_row d i)))"
  "length (follow_ups d) \<le> length (follow_ups (outcome d (insert_follow_ups_row d f)))"
  by (simp_all add: insert_profiles_row_def insert_inquiries_row_def insert_follow_ups_row_def)

lemma exec_follow_ups_length:
  "length (follow_ups d) \<le> length (follow_ups (outcome d (exec d u now q)))"
proof (cases u)
  case None
  show ?thesis
    by (cases q)
       (simp_all add: None insert_profiles_def insert_inquiries_def insert_follow_ups_def
          update_profiles_def update_inquiries_def update_follow_ups_def delete_profiles_def
          delete_inquiries_def delete_follow_ups_def update_follow_ups_all_def
          delete_follow_ups_all_def Let_def rows_follow_ups_length delete_inquiries_rows_eq
          delete_follow_ups_rows_def)
next
  case (Some c)
  show ?thesis
    by (cases q)
       (simp_all add: Some insert_profiles_def insert_inquiries_def insert_follow_ups_def
          update_profiles_def update_inquiries_def update_follow_ups_def delete_profiles_def
          delete_inquiries_def delete_follow_ups_def update_follow_ups_all_def
          delete_follow_ups_all_def rows_follow_ups_length can_delete_follow_ups
          delete_follow_ups_rows_def)
qed

lemma profiles_on_delete_eq:
  "profiles_on_delete k now d
    = d\<lparr>inquiries := map (\<lambda>i. i\<lparr>i_assigned_to := (if i_assigned_to i = Some k then None
                                                    else i_assigned_to i),
                                  i_created_by := (if i_created_by i = Some k then None
                                                   else i_created_by i),
                                  i_updated_at := (if i_assigned_to i = Some k
                                                      \<or> i_created_by i = Some k
                                                   then now else i_updated_at i)\<rparr>)
                          (inquiries d),
         follow_ups := map (\<lambda>f. f\<lparr>f_created_by := (if f_created_by f = Some k then None
                                                   else f_created_by f)\<rparr>)
                           (follow_ups d)\<rparr>"
proof -
  have "set_null_created_by k now \<circ> set_null_assigned_to k now
          = (\<lambda>i. i\<lparr>i_assigned_to := (if i_assigned_to i = Some k then None else i_assigned_to i),
         i_created_by := (if i_created_by i = Some k then None else i_created_by i),
         i_updated_at := (if i_assigned_to i = Some k \<or> i_created_by i = Some k then now
                          else i_updated_at i)\<rparr>)"
    by (rule ext) (simp only: o_apply set_null_inquiry)
  moreover have "set_null_follow_up k
          = (\<lambda>f. f\<lparr>f_created_by := (if f_created_by f = Some k then None else f_created_by f)\<rparr>)"
    by (rule ext) (rule set_null_follow_up)
  ultimately show ?thesis
    by (simp add: profiles_on_delete_def)
qed

lemma follow_ups_update_where_raises:
  "update_follow_ups d (Some c) k s = Inl Infinite_recursion"
  by (simp add: update_follow_ups_def)


section \<open>Properties of the policies\<close>

text \<open>
  C1 (what the code does). A select of \<open>inquiries\<close> by an authenticated caller, an
  employee with assigned inquiries or an admin alike, raises "infinite recursion detected
  in policy for relation profiles": the policy "Admins and co-leaders can view all
  inquiries" sub-selects \<open>profiles\<close>, and the \<open>SELECT\<close> policies of \<open>profiles\<close> sub-select
  \<open>profiles\<close> again. The caller gets neither the inquiries assigned to them nor the whole
  table. An anonymous caller gets no row.
\<close>

theorem inquiries_select_raises:
  "select_inquiries d (Some c) = Inl Infinite_recursion \<and> select_inquiries d None = Inr []"
  by (simp add: select_inquiries_def)

theorem inquiries_select_raises_witness:
  "p_role profile_B = ''employee'' \<and> i_assigned_to inquiry_I1 = Some (p_id profile_B)
   \<and> select_inquiries academy_db (Some (p_id profile_B)) = Inl Infinite_recursion
   \<and> select_inquiries academy_db (Some (p_id profile_A)) = Inl Infinite_recursion"
  using inquiries_select_raises [of academy_db "p_id profile_B"]
    inquiries_select_raises [of academy_db "p_id profile_A"]
  by (simp add: profile_B_def inquiry_I1_def)

text \<open>
  C2 (what the code does). An \<open>update ... where id = k\<close> of \<open>inquiries\<close> by an
  authenticated caller raises the same error, whatever the row and the \<open>SET\<close> clause: the
  \<open>UPDATE\<close> policy for admins and co-leaders sub-selects \<open>profiles\<close>. An employee's update
  of an inquiry assigned to them is refused like every other.
\<close>

theorem inquiries_update_raises:
  "update_inquiries d (Some c) now k s = Inl Infinite_recursion"
  by (simp add: update_inquiries_def)

theorem inquiries_update_raises_witness:
  "i_assigned_to inquiry_I1 = Some (p_id profile_B)
   \<and> update_inquiries academy_db (Some (p_id profile_B)) 50 (i_id inquiry_I1)
        (\<lambda>r. r\<lparr>i_status := ''converted''\<rparr>) = Inl Infinite_recursion"
  using inquiries_update_raises [of academy_db "p_id profile_B" 50 "i_id inquiry_I1"
      "\<lambda>r. r\<lparr>i_status := ''converted''\<rparr>"]
  by (simp add: profile_B_def inquiry_I1_def)

text \<open>
  C3 (what the code does). A \<open>delete ... where id = k\<close> of \<open>inquiries\<close> or of \<open>profiles\<close> by
  an authenticated caller raises the same error and the row stays: the \<open>DELETE\<close> policies
  "Only admins can delete ..." sub-select \<open>profiles\<close>. An admin is refused like a
  co-leader or an employee.
\<close>

theorem delete_raises:
  "delete_inquiries d (Some c) k = Inl Infinite_recursion
   \<and> delete_profiles d (Some c) now k = Inl Infinite_recursion"
  by (simp add: delete_inquiries_def delete_profiles_def)

theorem delete_raises_witness:
  "p_role profile_A = ''admin''
   \<and> delete_inquiries academy_db (Some (p_id profile_A)) (i_id inquiry_I1) = Inl Infinite_recursion
   \<and> delete_profiles academy_db (Some (p_id profile_A)) 50 (p_id profile_D) = Inl Infinite_recursion"
  using delete_raises [of academy_db "p_id profile_A" "i_id inquiry_I1" 50]
    delete_raises [of academy_db "p_id profile_A" "p_id profile_D" 50]
  by (simp add: profile_A_def)

text \<open>
  C4 (what the code does). A select of \<open>profiles\<close> by an authenticated caller raises the
  same error: two of the three \<open>SELECT\<close> policies of \<open>profiles\<close> sub-select \<open>profiles\<close>.
  An employee does not get their own row. An anonymous caller gets no row.
\<close>

theorem profiles_select_raises:
  "select_profiles d (Some c) = Inl Infinite_recursion \<and> select_profiles d None = Inr []"
  by (simp add: select_profiles_def)

theorem profiles_select_raises_witness:
  "p_role profile_B = ''employee''
   \<and> select_profiles academy_db (Some (p_id profile_B)) = Inl Infinite_recursion"
  using profiles_select_raises [of academy_db "p_id profile_B"]
  by (simp add: profile_B_def)

text \<open>
  C6 (what the code does). An insert into \<open>follow_ups\<close> and a select of \<open>follow_ups\<close> by
  an authenticated caller raise the same error: their policies sub-select \<open>inquiries\<close>
  joined with \<open>profiles\<close>, both under row security. The employee an inquiry is assigned
  to cannot log a follow-up on it.
\<close>

theorem follow_ups_insert_raises:
  "insert_follow_ups d (Some c) f = Inl Infinite_recursion
   \<and> select_follow_ups d (Some c) = Inl Infinite_recursion"
  by (simp add: insert_follow_ups_def select_follow_ups_def)

theorem follow_ups_insert_raises_witness:
  "i_assigned_to inquiry_I1 = Some (p_id profile_B)
   \<and> insert_follow_ups academy_db (Some (p_id profile_B))
        (follow_up_F1\<lparr>f_id := 30\<rparr>) = Inl Infinite_recursion"
  using follow_ups_insert_raises [of academy_db "p_id profile_B" "follow_up_F1\<lparr>f_id := 30\<rparr>"]
  by (simp add: profile_B_def inquiry_I1_def)



text \<open>
  C7. \<open>follow_ups\<close> has no \<open>DELETE\<close> policy: no caller is admitted to delete any of its
  rows. A caller's delete on the table, with or without a \<open>WHERE\<close> clause, leaves the
  database as it was, and no request of a caller at all leaves the table with fewer
  rows. Follow-ups go with their inquiry: where an inquiry is deleted, the cascade takes
  exactly its follow-ups.
\<close>

theorem follow_ups_no_direct_delete:
  "\<not> can_delete follow_ups_policies d u f
   \<and> outcome d (delete_follow_ups d u k) = d
   \<and> delete_follow_ups_all d u = Inr d
   \<and> length (follow_ups d) \<le> length (follow_ups (outcome d (exec d u now q)))
   \<and> (k' \<in> set (map i_id (inquiries d)) \<longrightarrow>
        follow_ups (outcome d (bypass_exec d now (Delete_inquiry k')))
          = filter (\<lambda>f. f_inquiry_id f \<noteq> k') (follow_ups d))"
proof (intro conjI impI)
  show "\<not> can_delete follow_ups_policies d u f" by (simp add: can_delete_follow_ups)
  show "outcome d (delete_follow_ups d u k) = d"
    by (simp add: delete_follow_ups_def delete_follow_ups_rows_def can_delete_follow_ups)
  show "delete_follow_ups_all d u = Inr d"
    by (cases u)
       (simp_all add: delete_follow_ups_all_def delete_follow_ups_rows_def can_delete_follow_ups)
  show "length (follow_ups d) \<le> length (follow_ups (outcome d (exec d u now q)))"
    by (rule exec_follow_ups_length)
  assume "k' \<in> set (map i_id (inquiries d))"
  then have "i_id ` {r \<in> set (inquiries d). i_id r = k'} = {k'}" by auto
  then show "follow_ups (outcome d (bypass_exec d now (Delete_inquiry k')))
          = filter (\<lambda>f. f_inquiry_id f \<noteq> k') (follow_ups d)"
    by (simp add: delete_inquiries_rows_eq)
qed

theorem follow_ups_no_direct_delete_witness:
  "outcome academy_db (delete_follow_ups academy_db (Some 1) 20) = academy_db
   \<and> delete_follow_ups_all academy_db (Some 1) = Inr academy_db
   \<and> exec academy_db (Some 1) 50 (Delete_inquiry 10) = Inl Infinite_recursion
   \<and> follow_ups (outcome academy_db (bypass_exec academy_db 50 (Delete_inquiry 10)))
       = [follow_up_F2]"
proof -
  have h: "10 \<in> set (map i_id (inquiries academy_db))" by (simp add: academy_defs)
  have e: "exec academy_db (Some 1) 50 (Delete_inquiry 10) = Inl Infinite_recursion"
    by (simp add: delete_inquiries_def)
  have f: "filter (\<lambda>f. f_inquiry_id f \<noteq> 10) (follow_ups academy_db) = [follow_up_F2]"
    by (simp add: academy_defs)
  note inst = follow_ups_no_direct_delete [of academy_db "Some 1" follow_up_F1 20 50
        "Delete_inquiry 10" 10]
  from inst have "outcome academy_db (delete_follow_ups academy_db (Some 1) 20) = academy_db"
    and "delete_follow_ups_all academy_db (Some 1) = Inr academy_db"
    by blast+
  moreover from inst h
  have "follow_ups (outcome academy_db (bypass_exec academy_db 50 (Delete_inquiry 10)))
          = filter (\<lambda>f. f_inquiry_id f \<noteq> 10) (follow_ups academy_db)"
    by blast
  ultimately show ?thesis using e f by simp
qed

text \<open>
  C8. The cascade of a deleted inquiry \<open>k\<close> removes exactly the follow-ups whose
  \<open>inquiry_id\<close> is \<open>k\<close>; a delete of inquiry \<open>k\<close> that row security does not stop removes
  the inquiry and those follow-ups. Every statement, of a caller or past row security,
  keeps the property that each follow-up's \<open>inquiry_id\<close> is the key of an existing
  inquiry, so it holds after every history, from the empty database or from any state
  that has it.
\<close>

theorem inquiry_delete_cascades:
  "follow_ups (inquiries_on_delete k d) = filter (\<lambda>f. f_inquiry_id f \<noteq> k) (follow_ups d)
   \<and> (k \<in> set (map i_id (inquiries d)) \<longrightarrow>
        bypass_exec d now (Delete_inquiry k)
          = Inr (d\<lparr>inquiries := filter (\<lambda>r. i_id r \<noteq> k) (inquiries d),
                   follow_ups := filter (\<lambda>f. f_inquiry_id f \<noteq> k) (follow_ups d)\<rparr>))
   \<and> (no_orphans d \<longrightarrow> no_orphans (run d es))
   \<and> no_orphans (run empty_db es)"
proof (intro conjI impI)
  show "follow_ups (inquiries_on_delete k d) = filter (\<lambda>f. f_inquiry_id f \<noteq> k) (follow_ups d)"
    by (simp add: inquiries_on_delete_def)
  show "no_orphans (run d es)" if "no_orphans d"
    using that by (rule run_no_orphans)
  have "no_orphans empty_db" by (simp add: no_orphans_def empty_db_def)
  then show "no_orphans (run empty_db es)" by (rule run_no_orphans)
  assume "k \<in> set (map i_id (inquiries d))"
  then have "i_id ` {r \<in> set (inquiries d). i_id r = k} = {k}" by auto
  then show "bypass_exec d now (Delete_inquiry k)
          = Inr (d\<lparr>inquiries := filter (\<lambda>r. i_id r \<noteq> k) (inquiries d),
                   follow_ups := filter (\<lambda>f. f_inquiry_id f \<noteq> k) (follow_ups d)\<rparr>)"
    by (simp add: delete_inquiries_rows_eq)
qed

theorem inquiry_delete_cascades_witness:
  "bypass_exec academy_db 50 (Delete_inquiry 10)
     = Inr (academy_db\<lparr>inquiries := [inquiry_I2, inquiry_I3], follow_ups := [follow_up_F2]\<rparr>)
   \<and> no_orphans academy_db
   \<and> no_orphans (run academy_db [Bypassing_rls 50 (Delete_inquiry 10),
                                   As_caller (Some 2) 51 (Update_follow_ups_all [Set_f_notes ''x''])])"
proof -
  have h2: "10 \<in> set (map i_id (inquiries academy_db))" by (simp add: academy_defs)
  have h3: "no_orphans academy_db" by (simp add: no_orphans_def academy_defs)
  note inst = inquiry_delete_cascades [of 10 academy_db 50
      "[Bypassing_rls 50 (Delete_inquiry 10),
        As_caller (Some 2) 51 (Update_follow_ups_all [Set_f_notes ''x''])]"]
  from inst h2 have "bypass_exec academy_db 50 (Delete_inquiry 10)
        = Inr (academy_db\<lparr>inquiries := filter (\<lambda>r. i_id r \<noteq> 10) (inquiries academy_db),
                 follow_ups := filter (\<lambda>f. f_inquiry_id f \<noteq> 10) (follow_ups academy_db)\<rparr>)"
    by blast
  moreover have "filter (\<lambda>r. i_id r \<noteq> 10) (inquiries academy_db) = [inquiry_I2, inquiry_I3]"
    by (simp add: academy_defs)
  moreover have "filter (\<lambda>f. f_inquiry_id f \<noteq> 10) (follow_ups academy_db) = [follow_up_F2]"
    by (simp add: academy_defs)
  moreover from inst h3
  have "no_orphans (run academy_db [Bypassing_rls 50 (Delete_inquiry 10),
                                   As_caller (Some 2) 51 (Update_follow_ups_all [Set_f_notes ''x''])])"
    by blast
  ultimately show ?thesis using h3 by simp
qed

text \<open>
  C9 (as stated: a delete of a profile leaves every field of the referencing rows
  unchanged but the references it sets to \<open>NULL\<close>). The \<open>SET NULL\<close> action is an update of
  the referencing inquiry, and the trigger \<open>update_inquiries_updated_at\<close> fires on it:
  when B's profile goes at time 99, \<open>updated_at\<close> of I1 moves from 10 to 99.
\<close>

theorem profile_delete_touches_updated_at:
  "i_assigned_to inquiry_I1 = Some (p_id profile_B)
   \<and> i_updated_at inquiry_I1 = 10
   \<and> bypass_exec academy_db 99 (Delete_profile (p_id profile_B))
     = Inr (academy_db\<lparr>profiles := [profile_A, profile_C, profile_D],
              inquiries := [inquiry_I1\<lparr>i_assigned_to := None, i_updated_at := 99\<rparr>,
                            inquiry_I2\<lparr>i_created_by := None, i_updated_at := 99\<rparr>, inquiry_I3],
              follow_ups := [follow_up_F1\<lparr>f_created_by := None\<rparr>, follow_up_F2, follow_up_F3]\<rparr>)
   \<and> i_updated_at (inquiry_I1\<lparr>i_assigned_to := None, i_updated_at := 99\<rparr>) \<noteq> i_updated_at inquiry_I1"
  by (simp add: delete_profiles_rows_def profiles_on_delete_def
        set_null_created_by_def set_null_assigned_to_def set_null_follow_up_def
        update_inquiries_updated_at_def academy_defs)

text \<open>
  C9 (amended). When profile \<open>k\<close> is deleted, the referential actions keep every inquiry
  and every follow-up, set \<open>assigned_to\<close> and \<open>created_by\<close> of an inquiry and \<open>created_by\<close>
  of a follow-up to \<open>NULL\<close> where they held \<open>k\<close>, set \<open>updated_at\<close> of each inquiry that
  referenced \<open>k\<close> to the current time, and change no other field.
\<close>

theorem profile_delete_sets_null:
  "profiles_on_delete k now d
    = d\<lparr>inquiries := map (\<lambda>i. i\<lparr>i_assigned_to := (if i_assigned_to i = Some k then None
                                                    else i_assigned_to i),
                                  i_created_by := (if i_created_by i = Some k then None
                                                   else i_created_by i),
                                  i_updated_at := (if i_assigned_to i = Some k
                                                      \<or> i_created_by i = Some k
                                                   then now else i_updated_at i)\<rparr>)
                          (inquiries d),
         follow_ups := map (\<lambda>f. f\<lparr>f_created_by := (if f_created_by f = Some k then None
                                                   else f_created_by f)\<rparr>)
                           (follow_ups d)\<rparr>
   \<and> (distinct (map p_id (profiles d)) \<and> k \<in> set (map p_id (profiles d)) \<longrightarrow>
        bypass_exec d now (Delete_profile k)
          = Inr (profiles_on_delete k now (d\<lparr>profiles := filter (\<lambda>r. p_id r \<noteq> k) (profiles d)\<rparr>)))"
proof (intro conjI impI)
  show "profiles_on_delete k now d
    = d\<lparr>inquiries := map (\<lambda>i. i\<lparr>i_assigned_to := (if i_assigned_to i = Some k then None
                                                    else i_assigned_to i),
                                  i_created_by := (if i_created_by i = Some k then None
                                                   else i_created_by i),
                                  i_updated_at := (if i_assigned_to i = Some k
                                                      \<or> i_created_by i = Some k
                                                   then now else i_updated_at i)\<rparr>)
                          (inquiries d),
         follow_ups := map (\<lambda>f. f\<lparr>f_created_by := (if f_created_by f = Some k then None
                                                   else f_created_by f)\<rparr>)
                           (follow_ups d)\<rparr>"
    by (rule profiles_on_delete_eq)
  assume "distinct (map p_id (profiles d)) \<and> k \<in> set (map p_id (profiles d))"
  then have "map p_id (filter (\<lambda>r. p_id r = k) (profiles d)) = [k]"
    by (simp add: map_filter_key)
  then show "bypass_exec d now (Delete_profile k)
          = Inr (profiles_on_delete k now (d\<lparr>profiles := filter (\<lambda>r. p_id r \<noteq> k) (profiles d)\<rparr>))"
    by (simp add: delete_profiles_rows_def)
qed

theorem profile_delete_sets_null_witness:
  "bypass_exec academy_db 99 (Delete_profile 2)
     = Inr (academy_db\<lparr>profiles := [profile_A, profile_C, profile_D],
              inquiries := [inquiry_I1\<lparr>i_assigned_to := None, i_updated_at := 99\<rparr>,
                            inquiry_I2\<lparr>i_created_by := None, i_updated_at := 99\<rparr>, inquiry_I3],
              follow_ups := [follow_up_F1\<lparr>f_created_by := None\<rparr>, follow_up_F2, follow_up_F3]\<rparr>)"
proof -
  have h: "distinct (map p_id (profiles academy_db)) \<and> 2 \<in> set (map p_id (profiles academy_db))"
    by (simp add: academy_defs)
  from profile_delete_sets_null [of 2 99 academy_db] h
  have "bypass_exec academy_db 99 (Delete_profile 2)
          = Inr (profiles_on_delete 2 99
                   (academy_db\<lparr>profiles := filter (\<lambda>r. p_id r \<noteq> 2) (profiles academy_db)\<rparr>))"
    by blast
  also have "\<dots> = Inr (academy_db\<lparr>profiles := [profile_A, profile_C, profile_D],
              inquiries := [inquiry_I1\<lparr>i_assigned_to := None, i_updated_at := 99\<rparr>,
                            inquiry_I2\<lparr>i_created_by := None, i_updated_at := 99\<rparr>, inquiry_I3],
              follow_ups := [follow_up_F1\<lparr>f_created_by := None\<rparr>, follow_up_F2, follow_up_F3]\<rparr>)"
    by (simp add: profile_delete_sets_null [of 2 99] academy_defs)
  finally show ?thesis .
qed

text \<open>
  C10. No policy reads \<open>is_active\<close>: the decision for every command on every table is the
  same in two database states that differ only in the \<open>is_active\<close> flags of the profiles,
  also for a row of \<open>profiles\<close> whose own flag differs. Deactivating an account revokes
  nothing.
\<close>

theorem decisions_ignore_is_active:
  "can_select profiles_policies (set_is_active g d) u (p\<lparr>p_is_active := b\<rparr>)
     = can_select profiles_policies d u p
   \<and> can_insert profiles_policies (set_is_active g d) u (p\<lparr>p_is_active := b\<rparr>)
     = can_insert profiles_policies d u p
   \<and> can_update profiles_policies (set_is_active g d) u (p\<lparr>p_is_active := b\<rparr>) (p'\<lparr>p_is_active := b'\<rparr>)
     = can_update profiles_policies d u p p'
   \<and> can_delete profiles_policies (set_is_active g d) u (p\<lparr>p_is_active := b\<rparr>)
     = can_delete profiles_policies d u p
   \<and> can_select inquiries_policies (set_is_active g d) u i = can_select inquiries_policies d u i
   \<and> can_insert inquiries_policies (set_is_active g d) u i = can_insert inquiries_policies d u i
   \<and> can_update inquiries_policies (set_is_active g d) u i i'
     = can_update inquiries_policies d u i i'
   \<and> can_delete inquiries_policies (set_is_active g d) u i = can_delete inquiries_policies d u i
   \<and> can_select follow_ups_policies (set_is_active g d) u f = can_select follow_ups_policies d u f
   \<and> can_insert follow_ups_policies (set_is_active g d) u f = can_insert follow_ups_policies d u f
   \<and> can_update follow_ups_policies (set_is_active g d) u f f'
     = can_update follow_ups_policies d u f f'
   \<and> can_delete follow_ups_policies (set_is_active g d) u f = can_delete follow_ups_policies d u f"
  by (simp add: can_select_profiles can_insert_profiles can_update_profiles can_delete_profiles
        can_select_inquiries can_insert_inquiries can_update_inquiries can_delete_inquiries
        can_select_follow_ups can_insert_follow_ups can_update_follow_ups can_delete_follow_ups)

theorem decisions_ignore_is_active_witness:
  "p_is_active profile_D = False
   \<and> profiles (set_is_active (\<lambda>p. True) academy_db)
       = [profile_A, profile_B, profile_C, profile_D\<lparr>p_is_active := True\<rparr>]
   \<and> can_select inquiries_policies academy_db (Some 4) inquiry_I2
   \<and> can_select inquiries_policies (set_is_active (\<lambda>p. True) academy_db) (Some 4) inquiry_I2
   \<and> \<not> can_delete inquiries_policies academy_db (Some 4) inquiry_I2
   \<and> \<not> can_delete inquiries_policies (set_is_active (\<lambda>p. True) academy_db) (Some 4) inquiry_I2"
proof -
  have "profiles (set_is_active (\<lambda>p. True) academy_db)
       = [profile_A, profile_B, profile_C, profile_D\<lparr>p_is_active := True\<rparr>]"
    by (simp add: set_is_active_def academy_defs)
  moreover have "can_select inquiries_policies academy_db (Some 4) inquiry_I2"
    by (simp add: can_select_inquiries academy_defs)
  moreover have "\<not> can_delete inquiries_policies academy_db (Some 4) inquiry_I2"
    by (simp add: can_delete_inquiries caller_role_in_def academy_defs)
  ultimately show ?thesis
    using decisions_ignore_is_active [where g = "\<lambda>p. True" and d = academy_db and u = "Some 4"
        and i = inquiry_I2]
    by (simp add: profile_D_def)
qed

end
